theory Spec2Isabelle
  imports Main
begin

section \<open>K-Scope: the entry store (db.ts) and the launch dispatcher (logic.ts)\<close>

text \<open>
  The development embeds two modules of the launcher. \<^verbatim>\<open>src/routes/db.ts\<close> keeps
  the entries in an SQLite file behind a module-level handle; \<^verbatim>\<open>src/lib/logic.ts\<close>
  turns an entry into one shell command. Rejected promises and thrown errors are values
  of the type \<open>error\<close>; what a function does to the world is either the store it
  returns or the list of events it emits.

  A \<open>string\<close> is the UTF-8 encoding of the JavaScript string, a list of bytes. The
  parser below only compares characters with the double quote and the space, both
  ASCII, so on the bytes it makes the same split as JavaScript's iteration over code
  points; \<^verbatim>\<open>trim\<close> knows the encodings of the white space beyond ASCII.
\<close>

subsection \<open>Errors\<close>

datatype error =
    NotInitialized        \<comment> \<open>\<^verbatim>\<open>new Error("Database not initialized")\<close>\<close>
  | SqlError string       \<comment> \<open>a statement rejected by the SQL plugin\<close>
  | TypeError string      \<comment> \<open>reading a property of \<^verbatim>\<open>undefined\<close>\<close>
  | ShellError string     \<comment> \<open>\<^verbatim>\<open>command.execute()\<close> rejected\<close>

fun message :: "error \<Rightarrow> string" where
  "message NotInitialized = ''Database not initialized''"
| "message (SqlError m) = m"
| "message (TypeError m) = m"
| "message (ShellError m) = m"

subsection \<open>Rows and entries\<close>

text \<open>
  The columns that the legacy and the current layout share. The parameter \<open>'d\<close> is the
  representation of \<open>deprecated\<close>: a nullable SQLite integer in a stored row, a boolean
  in the \<^verbatim>\<open>Entry\<close> objects that \<^verbatim>\<open>getEntries\<close> and \<^verbatim>\<open>addEntry\<close> hand out.
  \<open>created_at\<close> is a nullable integer column. \<open>type\<close> is a text column; the values it
  may hold are restricted by the \<^verbatim>\<open>CHECK\<close> constraint of the table, not by the
  representation.
\<close>

record 'd common =
  id :: int
  type :: string
  name :: string
  image_data :: string
  deprecated :: 'd
  created_at :: "int option"

text \<open>
  Modelled from the spec: the declaration of the legacy table is not in the source. Its
  columns are those the specification lists for the legacy layout (\<open>id\<close>, the category
  column \<open>type\<close>, \<open>name\<close>, the script path \<open>bat_path\<close>, \<open>image_data\<close>,
  \<open>deprecated\<close>, \<open>created_at\<close>), which are also the columns that the migration reads
  by name. No constraint of the legacy table is assumed: its keys may repeat and its
  \<open>type\<close> may be any text.
\<close>

record 'd legacy = "'d common" +
  bat_path :: string

text \<open>
  The current layout, \<^verbatim>\<open>interface Entry\<close> and \<^verbatim>\<open>CREATE TABLE entries\<close>.
  \<open>launch_type\<close> is a text column under a \<^verbatim>\<open>CHECK\<close> constraint. \<open>launch_args\<close>
  is never null: every statement of the source that writes it binds a string or the
  literal \<^verbatim>\<open>''\<close>.
\<close>

record 'd entry = "'d common" +
  launch_type :: string
  launch_data :: string
  launch_args :: string

type_synonym legacy_row = "int option legacy"
type_synonym row = "int option entry"

subsection \<open>logic.ts: events and the shell\<close>

datatype callback = ToggleWindow bool

datatype event =
    PlaySound string                \<comment> \<open>\<^verbatim>\<open>playSound(name)\<close>\<close>
  | Execute string "string list"    \<comment> \<open>\<^verbatim>\<open>Command.create(program, args).execute()\<close>\<close>
  | ConsoleError "string list"      \<comment> \<open>\<^verbatim>\<open>console.error(...)\<close>\<close>
  | SetTimeout callback nat         \<comment> \<open>\<^verbatim>\<open>setTimeout(callback, ms)\<close>\<close>

text \<open>
  The shell plugin is a parameter: it says for each program and argument list whether
  the start request is accepted (\<open>None\<close>) or the promise is rejected.
\<close>

type_synonym shell = "string \<Rightarrow> string list \<Rightarrow> error option"

type_synonym 'a io = "(error + 'a) \<times> event list"

definition return_io :: "'a \<Rightarrow> 'a io" where
  "return_io x = (Inr x, [])"

definition emit :: "event \<Rightarrow> unit io" where
  "emit e = (Inr (), [e])"

definition then_io :: "'a io \<Rightarrow> ('a \<Rightarrow> 'b io) \<Rightarrow> 'b io" where
  "then_io m f =
     (case m of
        (Inl e, tr) \<Rightarrow> (Inl e, tr)
      | (Inr x, tr) \<Rightarrow> (case f x of (r, tr') \<Rightarrow> (r, tr @ tr')))"

definition try_catch :: "'a io \<Rightarrow> (error \<Rightarrow> 'a io) \<Rightarrow> 'a io" where
  "try_catch m h =
     (case m of
        (Inl e, tr) \<Rightarrow> (case h e of (r, tr') \<Rightarrow> (r, tr @ tr'))
      | (Inr x, tr) \<Rightarrow> (Inr x, tr))"

definition execute :: "shell \<Rightarrow> string \<Rightarrow> string list \<Rightarrow> unit io" where
  "execute os program args =
     (case os program args of
        None \<Rightarrow> (Inr (), [Execute program args])
      | Some e \<Rightarrow> (Inl e, [Execute program args]))"

definition playSound :: "string \<Rightarrow> unit io" where
  "playSound sound = emit (PlaySound sound)"

subsection \<open>logic.ts: parseArgs\<close>

definition dquote :: char where
  "dquote = CHR 0x22"

definition space :: char where
  "space = CHR 0x20"

text \<open>
  The \<^verbatim>\<open>for (const char of argsString)\<close> loop with its three variables \<^verbatim>\<open>args\<close>,
  \<^verbatim>\<open>current\<close> and \<^verbatim>\<open>inQuotes\<close>; the empty-list case is the code after the loop.
\<close>

fun parseArgs_loop :: "string list \<Rightarrow> string \<Rightarrow> bool \<Rightarrow> string \<Rightarrow> string list" where
  "parseArgs_loop args current inQuotes [] =
     (if current \<noteq> [] then args @ [current] else args)"
| "parseArgs_loop args current inQuotes (char # rest) =
     (if char = dquote then parseArgs_loop args current (\<not> inQuotes) rest
      else if char = space \<and> \<not> inQuotes then
        (if current \<noteq> [] then parseArgs_loop (args @ [current]) [] inQuotes rest
         else parseArgs_loop args current inQuotes rest)
      else parseArgs_loop args (current @ [char]) inQuotes rest)"

definition parseArgs :: "string \<Rightarrow> string list" where
  "parseArgs argsString = parseArgs_loop [] [] False argsString"

subsection \<open>logic.ts: the four launch strategies and launchEntry\<close>

text \<open>
  \<^verbatim>\<open>String.prototype.trim\<close> removes white space and line terminators from both ends of
  a string: U+0009 to U+000D, U+0020, U+00A0, U+1680, U+2000 to U+200A, U+2028, U+2029,
  U+202F, U+205F, U+3000 and U+FEFF. \<open>white_space\<close> lists their UTF-8 encodings. UTF-8
  is prefix-free, and a lead byte never occurs inside another character, so stripping
  these byte sequences from the ends of the encoded string removes exactly these
  characters.
\<close>

definition white_space :: "string list" where
  "white_space =
     [CHR 0x09] # [CHR 0x0A] # [CHR 0x0B] # [CHR 0x0C] # [CHR 0x0D] # [CHR 0x20] #
     [CHR 0xC2, CHR 0xA0] #
     [CHR 0xE1, CHR 0x9A, CHR 0x80] #
     [CHR 0xE2, CHR 0x80, CHR 0x80] # [CHR 0xE2, CHR 0x80, CHR 0x81] #
     [CHR 0xE2, CHR 0x80, CHR 0x82] # [CHR 0xE2, CHR 0x80, CHR 0x83] #
     [CHR 0xE2, CHR 0x80, CHR 0x84] # [CHR 0xE2, CHR 0x80, CHR 0x85] #
     [CHR 0xE2, CHR 0x80, CHR 0x86] # [CHR 0xE2, CHR 0x80, CHR 0x87] #
     [CHR 0xE2, CHR 0x80, CHR 0x88] # [CHR 0xE2, CHR 0x80, CHR 0x89] #
     [CHR 0xE2, CHR 0x80, CHR 0x8A] #
     [CHR 0xE2, CHR 0x80, CHR 0xA8] # [CHR 0xE2, CHR 0x80, CHR 0xA9] #
     [CHR 0xE2, CHR 0x80, CHR 0xAF] #
     [CHR 0xE2, CHR 0x81, CHR 0x9F] #
     [CHR 0xE3, CHR 0x80, CHR 0x80] #
     [CHR 0xEF, CHR 0xBB, CHR 0xBF] # []"

text \<open>Removing from the front of a string every leading sequence of a given list.\<close>

fun strip :: "string list \<Rightarrow> string \<Rightarrow> string" where
  "strip ws [] = []"
| "strip ws (c # cs) =
     (case find (\<lambda>w. w \<noteq> [] \<and> take (length w) (c # cs) = w) ws of
        None \<Rightarrow> c # cs
      | Some w \<Rightarrow> strip ws (drop (length w - 1) cs))"

definition trimStart :: "string \<Rightarrow> string" where
  "trimStart s = strip white_space s"

definition trimEnd :: "string \<Rightarrow> string" where
  "trimEnd s = rev (strip (map rev white_space) (rev s))"

definition trim :: "string \<Rightarrow> string" where
  "trim s = trimEnd (trimStart s)"

definition launchSteam :: "shell \<Rightarrow> string \<Rightarrow> unit io" where
  "launchSteam os appId =
     execute os ''cmd'' [''/c'', ''start'', ''steam://rungameid/'' @ appId]"

definition launchExe :: "shell \<Rightarrow> string \<Rightarrow> string \<Rightarrow> unit io" where
  "launchExe os exePath args =
     (let argList = (if trim args \<noteq> [] then parseArgs args else [])
      in execute os ''cmd'' ([''/c'', ''start'', '''', exePath] @ argList))"

definition launchUrl :: "shell \<Rightarrow> string \<Rightarrow> unit io" where
  "launchUrl os url = execute os ''cmd'' [''/c'', ''start'', url]"

definition launchBat :: "shell \<Rightarrow> string \<Rightarrow> unit io" where
  "launchBat os batPath = execute os ''cmd'' [''/c'', batPath]"

text \<open>
  \<^verbatim>\<open>launchEntry\<close>: the \<^verbatim>\<open>try\<close> block plays the sound and switches on
  \<^verbatim>\<open>entry.launch_type\<close>; after a \<^verbatim>\<open>break\<close> the window hide is scheduled and the
  result is \<^verbatim>\<open>true\<close>; the \<^verbatim>\<open>default\<close> case returns \<^verbatim>\<open>false\<close> at once; the
  \<^verbatim>\<open>catch\<close> block logs and returns \<^verbatim>\<open>false\<close>.
\<close>

definition after_switch :: "unit \<Rightarrow> bool io" where
  "after_switch u =
     then_io (emit (SetTimeout (ToggleWindow True) 200)) (\<lambda>_. return_io True)"

definition launchEntry :: "shell \<Rightarrow> 'd entry \<Rightarrow> bool io" where
  "launchEntry os entry =
     try_catch
       (then_io (playSound ''launch'') (\<lambda>_.
          if launch_type entry = ''steam'' then
            then_io (launchSteam os (launch_data entry)) after_switch
          else if launch_type entry = ''exe'' then
            then_io (launchExe os (launch_data entry) (launch_args entry)) after_switch
          else if launch_type entry = ''url'' then
            then_io (launchUrl os (launch_data entry)) after_switch
          else if launch_type entry = ''bat'' then
            then_io (launchBat os (launch_data entry)) after_switch
          else
            then_io (emit (ConsoleError [''Unknown launch type:'', launch_type entry]))
              (\<lambda>_. return_io False)))
       (\<lambda>error.
          then_io (emit (ConsoleError [''Failed to launch:'', message error]))
            (\<lambda>_. return_io False))"

text \<open>The shell commands among the events of a call.\<close>

fun is_Execute :: "event \<Rightarrow> bool" where
  "is_Execute (Execute p a) = True"
| "is_Execute e = False"

definition executions :: "'a io \<Rightarrow> event list" where
  "executions r = filter is_Execute (snd r)"

subsection \<open>db.ts: the database file\<close>

text \<open>
  A table has the legacy or the current layout. A table of the current layout carries the
  counter SQLite keeps for an \<^verbatim>\<open>AUTOINCREMENT\<close> key (the largest key the table has
  ever held) and its rows. A key is an integer, kept as SQLite holds it; in the script
  it is a JavaScript number, which is the same integer for keys of magnitude up to
  \<open>2 ^ 53\<close>.
\<close>

datatype table =
    Legacy "legacy_row list"
  | Current int "row list"

type_synonym database = "string \<rightharpoonup> table"

datatype handle = Handle string

text \<open>
  The state the module works on: the variable \<^verbatim>\<open>let db: Database | null\<close>, the
  content of \<^verbatim>\<open>kscope.db\<close>, and the clock that \<^verbatim>\<open>unixepoch()\<close> reads.
\<close>

record store =
  db :: "handle option"
  kscope_db :: database
  clock :: int

definition legacy_columns :: "string list" where
  "legacy_columns =
     [''id'', ''type'', ''name'', ''bat_path'', ''image_data'', ''deprecated'', ''created_at'']"

definition current_columns :: "string list" where
  "current_columns =
     [''id'', ''type'', ''name'', ''launch_type'', ''launch_data'', ''launch_args'',
      ''image_data'', ''deprecated'', ''created_at'']"

text \<open>\<^verbatim>\<open>PRAGMA table_info(t)\<close>, projected on the column names; empty for a missing table.\<close>

definition table_info :: "string \<Rightarrow> database \<Rightarrow> string list" where
  "table_info t d =
     (case d t of
        None \<Rightarrow> []
      | Some (Legacy rs) \<Rightarrow> legacy_columns
      | Some (Current q rs) \<Rightarrow> current_columns)"

subsection \<open>db.ts: the SQL statements\<close>

text \<open>
  Each statement of the source is a function on the database content. A statement that
  fails leaves the content as it was; there is no transaction around several statements.
  A statement fails for the reasons SQL gives (a missing or clashing table, a missing
  column, a violated constraint); failures of the engine itself, such as an unreadable
  file, are not modelled, and \<^verbatim>\<open>Database.load\<close> is taken to succeed. The
  \<^verbatim>\<open>console.log\<close> calls of \<^verbatim>\<open>initDatabase\<close> are left out.
\<close>

definition alter_table_rename :: "string \<Rightarrow> string \<Rightarrow> database \<Rightarrow> error + unit \<times> database" where
  "alter_table_rename old new d =
     (case d old of
        None \<Rightarrow> Inl (SqlError (''no such table: '' @ old))
      | Some t \<Rightarrow>
          (case d new of
             Some t' \<Rightarrow> Inl (SqlError (''there is already another table or index with this name: '' @ new))
           | None \<Rightarrow> Inr ((), d(old := None, new \<mapsto> t))))"

definition create_table_entries :: "database \<Rightarrow> error + unit \<times> database" where
  "create_table_entries d =
     (case d ''entries'' of
        Some t \<Rightarrow> Inl (SqlError ''table entries already exists'')
      | None \<Rightarrow> Inr ((), d(''entries'' \<mapsto> Current 0 [])))"

definition drop_table :: "string \<Rightarrow> database \<Rightarrow> error + unit \<times> database" where
  "drop_table t d =
     (case d t of
        None \<Rightarrow> Inl (SqlError (''no such table: '' @ t))
      | Some t' \<Rightarrow> Inr ((), d(t := None)))"

text \<open>The two \<^verbatim>\<open>CHECK\<close> constraints of \<^verbatim>\<open>CREATE TABLE entries\<close>.\<close>

definition check_type :: "string \<Rightarrow> bool" where
  "check_type t = (t \<in> set [''game'', ''app''])"

definition check_launch_type :: "string \<Rightarrow> bool" where
  "check_launch_type t = (t \<in> set [''steam'', ''exe'', ''url'', ''bat''])"

text \<open>
  Inserting a row whose key is given: the \<^verbatim>\<open>CHECK\<close> constraints and the uniqueness
  of the primary key are tested, and the counter follows the largest key.
\<close>

definition insert_row :: "row \<Rightarrow> int \<times> row list \<Rightarrow> error + int \<times> row list" where
  "insert_row r t =
     (case t of (q, rows) \<Rightarrow>
        if \<not> check_type (type r) then Inl (SqlError ''CHECK constraint failed: type'')
        else if \<not> check_launch_type (launch_type r) then
          Inl (SqlError ''CHECK constraint failed: launch_type'')
        else if id r \<in> set (map id rows) then
          Inl (SqlError ''UNIQUE constraint failed: entries.id'')
        else Inr (max q (id r), rows @ [r]))"

fun insert_rows :: "row list \<Rightarrow> int \<times> row list \<Rightarrow> error + int \<times> row list" where
  "insert_rows [] t = Inr t"
| "insert_rows (r # rs) t =
     (case insert_row r t of Inl e \<Rightarrow> Inl e | Inr t' \<Rightarrow> insert_rows rs t')"

text \<open>
  \<^verbatim>\<open>SELECT id, type, name, 'bat', bat_path, '', image_data, deprecated, created_at\<close>:
  what one legacy row becomes.
\<close>

definition migrate_row :: "legacy_row \<Rightarrow> row" where
  "migrate_row r =
     \<lparr>id = id r, type = type r, name = name r, image_data = image_data r,
      deprecated = deprecated r, created_at = created_at r,
      launch_type = ''bat'', launch_data = bat_path r, launch_args = []\<rparr>"

definition insert_select_old :: "database \<Rightarrow> error + unit \<times> database" where
  "insert_select_old d =
     (case d ''entries'' of
        None \<Rightarrow> Inl (SqlError ''no such table: entries'')
      | Some (Legacy rs) \<Rightarrow> Inl (SqlError ''table entries has no column named launch_type'')
      | Some (Current q rows) \<Rightarrow>
          (case d ''entries_old'' of
             None \<Rightarrow> Inl (SqlError ''no such table: entries_old'')
           | Some (Current q' rows') \<Rightarrow> Inl (SqlError ''no such column: bat_path'')
           | Some (Legacy old) \<Rightarrow>
               (case insert_rows (map migrate_row old) (q, rows) of
                  Inl e \<Rightarrow> Inl e
                | Inr (q', rows') \<Rightarrow> Inr ((), d(''entries'' \<mapsto> Current q' rows')))))"




text \<open>
  \<^verbatim>\<open>ORDER BY created_at DESC\<close>: NULL sorts below every integer. Rows with equal keys
  keep the order of the table; SQL itself leaves their order open.
\<close>

fun created_ge :: "int option \<Rightarrow> int option \<Rightarrow> bool" where
  "created_ge a None = True"
| "created_ge None (Some b) = False"
| "created_ge (Some a) (Some b) = (b \<le> a)"

fun insert_desc :: "('d, 'm) common_scheme \<Rightarrow> ('d, 'm) common_scheme list \<Rightarrow> ('d, 'm) common_scheme list" where
  "insert_desc r [] = [r]"
| "insert_desc r (x # xs) =
     (if created_ge (created_at x) (created_at r) then x # insert_desc r xs else r # x # xs)"

definition order_by_created_at_desc :: "('d, 'm) common_scheme list \<Rightarrow> ('d, 'm) common_scheme list" where
  "order_by_created_at_desc rows = fold insert_desc rows []"

text \<open>
  The rows a \<^verbatim>\<open>SELECT *\<close> returns have the layout of the table they come from. The
  statements that only name columns of both layouts (the two selects, the delete and the
  toggle) also run on a table of the legacy layout.
\<close>

datatype 'd result = CurrentRows "'d entry list" | LegacyRows "'d legacy list"

definition select_by_type :: "string \<Rightarrow> database \<Rightarrow> error + int option result" where
  "select_by_type type' d =
     (case d ''entries'' of
        None \<Rightarrow> Inl (SqlError ''no such table: entries'')
      | Some (Legacy rows) \<Rightarrow>
          Inr (LegacyRows (order_by_created_at_desc (filter (\<lambda>r. type r = type') rows)))
      | Some (Current q rows) \<Rightarrow>
          Inr (CurrentRows (order_by_created_at_desc (filter (\<lambda>r. type r = type') rows))))"






text \<open>
  The \<^verbatim>\<open>UPDATE\<close> of \<^verbatim>\<open>updateEntry\<close>. The \<^verbatim>\<open>CHECK\<close> on \<open>launch_type\<close> is tested
  on the rows the statement changes, so it cannot fail when no row has the key.
\<close>

definition update_row :: "int \<Rightarrow> string \<Rightarrow> string \<Rightarrow> string \<Rightarrow> string \<Rightarrow> string \<Rightarrow> row \<Rightarrow> row" where
  "update_row i name' launchType launchData launchArgs imageData r =
     (if id r = i then
        r\<lparr>name := name', launch_type := launchType, launch_data := launchData,
          launch_args := launchArgs, image_data := imageData\<rparr>
      else r)"

definition update_by_id ::
  "int \<Rightarrow> string \<Rightarrow> string \<Rightarrow> string \<Rightarrow> string \<Rightarrow> string \<Rightarrow> database \<Rightarrow> error + unit \<times> database" where
  "update_by_id i name' launchType launchData launchArgs imageData d =
     (case d ''entries'' of
        None \<Rightarrow> Inl (SqlError ''no such table: entries'')
      | Some (Legacy rows) \<Rightarrow> Inl (SqlError ''no such column: launch_type'')
      | Some (Current q rows) \<Rightarrow>
          if i \<in> set (map id rows) \<and> \<not> check_launch_type launchType then
            Inl (SqlError ''CHECK constraint failed: launch_type'')
          else
            Inr ((), d(''entries'' \<mapsto>
              Current q (map (update_row i name' launchType launchData launchArgs imageData) rows))))"

subsection \<open>db.ts: the exported functions\<close>

type_synonym 'a db_io = "store \<Rightarrow> (error + 'a) \<times> store"

definition return_db :: "'a \<Rightarrow> 'a db_io" where
  "return_db x s = (Inr x, s)"

definition throw_db :: "error \<Rightarrow> 'a db_io" where
  "throw_db e s = (Inl e, s)"

definition then_db :: "'a db_io \<Rightarrow> ('a \<Rightarrow> 'b db_io) \<Rightarrow> 'b db_io" where
  "then_db m f s =
     (case m s of
        (Inl e, s') \<Rightarrow> (Inl e, s')
      | (Inr x, s') \<Rightarrow> f x s')"

text \<open>\<^verbatim>\<open>db = await Database.load(...)\<close>.\<close>

definition database_load :: "string \<Rightarrow> unit db_io" where
  "database_load path s = (Inr (), s\<lparr>db := Some (Handle path)\<rparr>)"

text \<open>\<^verbatim>\<open>await db.execute(...)\<close> and \<^verbatim>\<open>await db.select(...)\<close>.\<close>

definition db_execute :: "(database \<Rightarrow> error + 'r \<times> database) \<Rightarrow> 'r db_io" where
  "db_execute stmt s =
     (case stmt (kscope_db s) of
        Inl e \<Rightarrow> (Inl e, s)
      | Inr (r, d) \<Rightarrow> (Inr r, s\<lparr>kscope_db := d\<rparr>))"

definition db_select :: "(database \<Rightarrow> error + 'r) \<Rightarrow> 'r db_io" where
  "db_select query s =
     (case query (kscope_db s) of
        Inl e \<Rightarrow> (Inl e, s)
      | Inr r \<Rightarrow> (Inr r, s))"

text \<open>\<^verbatim>\<open>if (!db) throw new Error("Database not initialized")\<close>.\<close>

definition require_db :: "unit db_io" where
  "require_db s = (case db s of None \<Rightarrow> (Inl NotInitialized, s) | Some h \<Rightarrow> (Inr (), s))"

definition initDatabase :: "unit db_io" where
  "initDatabase =
     then_db (database_load ''sqlite:kscope.db'') (\<lambda>_.
     then_db (db_select (\<lambda>d. Inr (table_info ''entries'' d))) (\<lambda>columns.
       let hasOldSchema = (''bat_path'' \<in> set columns \<and> ''launch_type'' \<notin> set columns);
           tableExists = (length columns > 0)
       in
         if hasOldSchema then
           then_db (db_execute (alter_table_rename ''entries'' ''entries_old'')) (\<lambda>_.
           then_db (db_execute create_table_entries) (\<lambda>_.
           then_db (db_execute insert_select_old) (\<lambda>_.
           db_execute (drop_table ''entries_old''))))
         else if \<not> tableExists then db_execute create_table_entries
         else return_db ()))"

text \<open>\<^verbatim>\<open>{...row, deprecated: Boolean(row.deprecated)}\<close>, on a row of either layout.\<close>

definition Boolean :: "int option \<Rightarrow> bool" where
  "Boolean v = (case v of None \<Rightarrow> False | Some n \<Rightarrow> n \<noteq> 0)"

definition with_Boolean :: "(int option, 'm) common_scheme \<Rightarrow> (bool, 'm) common_scheme" where
  "with_Boolean r =
     \<lparr>id = id r, type = type r, name = name r, image_data = image_data r,
      deprecated = Boolean (deprecated r), created_at = created_at r, \<dots> = common.more r\<rparr>"

fun map_result :: "int option result \<Rightarrow> bool result" where
  "map_result (CurrentRows rows) = CurrentRows (map with_Boolean rows)"
| "map_result (LegacyRows rows) = LegacyRows (map with_Boolean rows)"

definition getEntries :: "string \<Rightarrow> bool result db_io" where
  "getEntries type' =
     then_db require_db (\<lambda>_.
     then_db (db_select (select_by_type type')) (\<lambda>rows.
     return_db (map_result rows)))"

definition getGames :: "bool result db_io" where
  "getGames = getEntries ''game''"

definition getApps :: "bool result db_io" where
  "getApps = getEntries ''app''"





definition updateEntry ::
  "int \<Rightarrow> string \<Rightarrow> string \<Rightarrow> string \<Rightarrow> string \<Rightarrow> string \<Rightarrow> unit db_io" where
  "updateEntry i name' launchType launchData launchArgs imageData =
     then_db require_db (\<lambda>_.
     db_execute (update_by_id i name' launchType launchData launchArgs imageData))"

text \<open>
  A store is initialized when the handle is set and the table has the current layout;
  this is what a successful \<^verbatim>\<open>initDatabase\<close> establishes.
\<close>

definition initialized :: "store \<Rightarrow> bool" where
  "initialized s =
     (case db s of
        None \<Rightarrow> False
      | Some h \<Rightarrow> (case kscope_db s ''entries'' of Some (Current q rows) \<Rightarrow> True | _ \<Rightarrow> False))"

text \<open>The rows of the table \<open>entries\<close>, when it has the current layout.\<close>

definition entries_rows :: "store \<Rightarrow> row list" where
  "entries_rows s = (case kscope_db s ''entries'' of Some (Current q rows) \<Rightarrow> rows | _ \<Rightarrow> [])"


section \<open>Properties of logic.ts\<close>

subsection \<open>parseArgs\<close>

lemmas io_defs = launchEntry_def try_catch_def then_io_def playSound_def emit_def return_io_def
  execute_def after_switch_def launchSteam_def launchExe_def launchUrl_def launchBat_def

lemma parseArgs_loop_args:
  "parseArgs_loop args cur q s = args @ parseArgs_loop [] cur q s"
proof (induction s arbitrary: args cur q)
  case Nil
  show ?case by simp
next
  case (Cons c s)
  show ?case
  proof (cases "c = dquote")
    case True
    then show ?thesis using Cons [of args cur "\<not> q"] by simp
  next
    case False
    note nq = this
    show ?thesis
    proof (cases "c = space \<and> \<not> q")
      case True
      note sp = this
      show ?thesis
      proof (cases "cur = []")
        case True
        then show ?thesis using nq sp Cons [of args "[]" q] by simp
      next
        case False
        have "parseArgs_loop (args @ [cur]) [] q s = (args @ [cur]) @ parseArgs_loop [] [] q s"
          by (rule Cons)
        moreover have "parseArgs_loop [cur] [] q s = [cur] @ parseArgs_loop [] [] q s"
          by (rule Cons)
        ultimately show ?thesis using nq sp False by simp
      qed
    next
      case False
      have "parseArgs_loop args (cur @ [c]) q s = args @ parseArgs_loop [] (cur @ [c]) q s"
        by (rule Cons)
      then show ?thesis using nq False by auto
    qed
  qed
qed

lemma parseArgs_loop_word:
  "dquote \<notin> set w \<Longrightarrow> q \<or> space \<notin> set w \<Longrightarrow>
   parseArgs_loop args cur q (w @ rest) = parseArgs_loop args (cur @ w) q rest"
  by (induction w arbitrary: cur) auto

lemma parseArgs_loop_space:
  "q = odd (length (filter (\<lambda>c. c = dquote) u)) \<Longrightarrow>
   parseArgs_loop [] cur q (u @ space # v) =
     parseArgs_loop [] cur q u @ parseArgs_loop [] [] False v"
proof (induction u arbitrary: cur q)
  case Nil
  then show ?case
    using parseArgs_loop_args [of "[cur]" "[]" False v] by (simp add: dquote_def space_def)
next
  case (Cons c u)
  show ?case
  proof (cases "c = dquote")
    case True
    then show ?thesis using Cons.IH [of "\<not> q" cur] Cons.prems by simp
  next
    case False
    note nq = this
    show ?thesis
    proof (cases "c = space \<and> \<not> q")
      case True
      then show ?thesis
        using nq Cons.IH [of q "[]"] Cons.prems
          parseArgs_loop_args [of "[cur]" "[]" q "u @ space # v"]
          parseArgs_loop_args [of "[cur]" "[]" q u]
        by simp
    next
      case False
      then show ?thesis using nq Cons.IH [of q "cur @ [c]"] Cons.prems by auto
    qed
  qed
qed


lemma parseArgs_loop_clean:
  "\<forall>a\<in>set args. a \<noteq> [] \<and> dquote \<notin> set a \<Longrightarrow> dquote \<notin> set cur \<Longrightarrow>
   \<forall>a\<in>set (parseArgs_loop args cur q s). a \<noteq> [] \<and> dquote \<notin> set a"
proof (induction s arbitrary: args cur q)
  case Nil
  then show ?case by simp
next
  case (Cons c s)
  show ?case
  proof (cases "c = dquote")
    case True
    then show ?thesis using Cons.IH [OF Cons.prems, of "\<not> q"] by simp
  next
    case False
    note nq = this
    show ?thesis
    proof (cases "c = space \<and> \<not> q")
      case True
      note sp = this
      show ?thesis
      proof (cases "cur = []")
        case True
        then show ?thesis using nq sp Cons.IH [OF Cons.prems, of q] by simp
      next
        case False
        have "\<forall>a\<in>set (args @ [cur]). a \<noteq> [] \<and> dquote \<notin> set a"
          using Cons.prems False by simp
        then have "\<forall>a\<in>set (parseArgs_loop (args @ [cur]) [] q s). a \<noteq> [] \<and> dquote \<notin> set a"
          by (rule Cons.IH) simp
        then show ?thesis using nq sp False by simp
      qed
    next
      case False
      have "dquote \<notin> set (cur @ [c])" using Cons.prems(2) nq by auto
      with Cons.prems(1)
      have "\<forall>a\<in>set (parseArgs_loop args (cur @ [c]) q s). a \<noteq> [] \<and> dquote \<notin> set a"
        by (rule Cons.IH)
      moreover have "parseArgs_loop args cur q (c # s) = parseArgs_loop args (cur @ [c]) q s"
        using nq False by auto
      ultimately show ?thesis by (simp only:)
    qed
  qed
qed

lemma parseArgs_split_space:
  "even (length (filter (\<lambda>c. c = dquote) u)) \<Longrightarrow>
   parseArgs (u @ space # v) = parseArgs u @ parseArgs v"
  using parseArgs_loop_space [of False u "[]" v] by (simp add: parseArgs_def)

lemma parseArgs_quoted:
  "dquote \<notin> set q \<Longrightarrow> parseArgs (dquote # q @ [dquote]) = (if q = [] then [] else [q])"
  using parseArgs_loop_word [of q True "[]" "[]" "[dquote]"] by (simp add: parseArgs_def)

lemma parseArgs_unmatched:
  "dquote \<notin> set q \<Longrightarrow> parseArgs (dquote # q) = (if q = [] then [] else [q])"
  using parseArgs_loop_word [of q True "[]" "[]" "[]"] by (simp add: parseArgs_def)

lemma parseArgs_word:
  "dquote \<notin> set w \<Longrightarrow> space \<notin> set w \<Longrightarrow> w \<noteq> [] \<Longrightarrow> parseArgs w = [w]"
  using parseArgs_loop_word [of w False "[]" "[]" "[]"] by (simp add: parseArgs_def)

lemma parseArgs_quoted_between:
  assumes "even (length (filter (\<lambda>c. c = dquote) u))" and "dquote \<notin> set q"
  shows "parseArgs (u @ [space, dquote] @ q @ [dquote, space] @ v) =
         parseArgs u @ (if q = [] then [] else [q]) @ parseArgs v"
proof -
  have nf: "filter (\<lambda>c. c = dquote) q = []" using assms(2) by (auto simp: filter_empty_conv)
  have "parseArgs (u @ [space, dquote] @ q @ [dquote, space] @ v) =
        parseArgs (u @ space # ((dquote # q @ [dquote]) @ space # v))" by simp
  also have "\<dots> = parseArgs u @ parseArgs ((dquote # q @ [dquote]) @ space # v)"
    using assms(1) by (rule parseArgs_split_space)
  also have "parseArgs ((dquote # q @ [dquote]) @ space # v) =
             parseArgs (dquote # q @ [dquote]) @ parseArgs v"
    by (rule parseArgs_split_space) (simp add: nf)
  finally show ?thesis using parseArgs_quoted [OF assms(2)] by simp
qed


lemma parseArgs_loop_piece:
  "\<forall>k<length w. w ! k = space \<longrightarrow>
      (q \<noteq> odd (length (filter (\<lambda>c. c = dquote) (take k w)))) \<Longrightarrow>
   parseArgs_loop args cur q w =
     (if cur @ filter (\<lambda>c. c \<noteq> dquote) w \<noteq> []
      then args @ [cur @ filter (\<lambda>c. c \<noteq> dquote) w] else args)"
proof (induction w arbitrary: cur q)
  case Nil
  show ?case by simp
next
  case (Cons c w)
  have tail: "\<forall>k<length w. w ! k = space \<longrightarrow>
      ((if c = dquote then \<not> q else q) \<noteq> odd (length (filter (\<lambda>c. c = dquote) (take k w))))"
  proof (intro allI impI)
    fix k assume k: "k < length w" and sp: "w ! k = space"
    have "Suc k < length (c # w)" using k by simp
    moreover have "(c # w) ! Suc k = space" using sp by simp
    ultimately have "q \<noteq> odd (length (filter (\<lambda>c. c = dquote) (take (Suc k) (c # w))))"
      using Cons.prems by blast
    then show "(if c = dquote then \<not> q else q) \<noteq>
        odd (length (filter (\<lambda>c. c = dquote) (take k w)))"
      by (cases "c = dquote") auto
  qed
  show ?case
  proof (cases "c = dquote")
    case True
    then show ?thesis using Cons.IH [of "\<not> q" cur] tail by simp
  next
    case False
    note nq = this
    have head: "c = space \<longrightarrow> q"
      using Cons.prems [rule_format, of 0] by simp
    show ?thesis
      using nq head Cons.IH [of q "cur @ [c]"] tail by auto
  qed
qed

lemma parseArgs_piece:
  "\<forall>k<length w. w ! k = space \<longrightarrow> odd (length (filter (\<lambda>c. c = dquote) (take k w))) \<Longrightarrow>
   parseArgs w =
     (if filter (\<lambda>c. c \<noteq> dquote) w = [] then [] else [filter (\<lambda>c. c \<noteq> dquote) w])"
  using parseArgs_loop_piece [of w False "[]" "[]"] by (simp add: parseArgs_def)


lemma parseArgs_determined:
  fixes f :: "string \<Rightarrow> string list"
  assumes split: "\<And>u v. even (length (filter (\<lambda>c. c = dquote) u)) \<Longrightarrow>
                    f (u @ space # v) = f u @ f v"
    and piece: "\<And>w. \<forall>k<length w. w ! k = space \<longrightarrow>
                      odd (length (filter (\<lambda>c. c = dquote) (take k w))) \<Longrightarrow>
                  f w = (if filter (\<lambda>c. c \<noteq> dquote) w = [] then []
                         else [filter (\<lambda>c. c \<noteq> dquote) w])"
  shows "f s = parseArgs s"
proof (induction s rule: length_induct)
  case (1 s)
  show ?case
  proof (cases "\<forall>k<length s. s ! k = space \<longrightarrow>
                  odd (length (filter (\<lambda>c. c = dquote) (take k s)))")
    case True
    then show ?thesis using piece [of s] parseArgs_piece [of s] by simp
  next
    case False
    then obtain k where k: "k < length s" and sp: "s ! k = space"
      and ev: "even (length (filter (\<lambda>c. c = dquote) (take k s)))"
      by auto
    have s: "s = take k s @ space # drop (Suc k) s"
      using k sp id_take_nth_drop [of k s] by simp
    have "length (take k s) < length s" using k by simp
    then have u: "f (take k s) = parseArgs (take k s)" using 1 by blast
    have "length (drop (Suc k) s) < length s" using k by simp
    then have v: "f (drop (Suc k) s) = parseArgs (drop (Suc k) s)" using 1 by blast
    have "f s = f (take k s) @ f (drop (Suc k) s)"
      using split [OF ev, of "drop (Suc k) s"] s by simp
    moreover have "parseArgs s = parseArgs (take k s) @ parseArgs (drop (Suc k) s)"
      using parseArgs_split_space [OF ev, of "drop (Suc k) s"] s by simp
    ultimately show ?thesis using u v by simp
  qed
qed

text \<open>
  Claim C5, as stated, does not hold: the parser compares each character with the space
  character only. A tab is white space, yet it does not end an argument.
\<close>

theorem parseArgs_tab_not_split:
  "[CHR 0x09] \<in> set white_space \<and>
   parseArgs [CHR ''a'', CHR 0x09, CHR ''b''] = [CHR ''a'', CHR 0x09, CHR ''b''] # [] \<and>
   parseArgs [CHR ''a'', CHR 0x09, CHR ''b''] \<noteq> [''a'', ''b'']"
  by (simp add: parseArgs_def white_space_def dquote_def space_def)

text \<open>
  Claim C5, amended to what \<^verbatim>\<open>parseArgs\<close> does. The first two conjuncts say all of it
  (\<open>parseArgs_determined\<close>: no other function satisfies both).
  \<^item> It splits at every space that is outside double quotes, that is, after an even
    number of quote characters.
  \<^item> A piece without such a space (every space in it has an odd number of quote
    characters before it) is one argument: the piece with all its quote characters
    removed, whether or not the quotes touch other characters and whether or not the
    last quote is closed; when nothing remains, the piece is no argument.

  The other conjuncts are instances. A run of characters without quotes that stands
  between two quote characters and between spaces is one argument, with the quotes
  stripped; a quote that is never closed keeps the rest of the string together; a word
  without spaces and quotes is itself; no argument is empty or contains a quote
  character. The function is total, so no input makes it fail. The three examples of the
  specification hold, a quoted path that touches an option name stays in the argument of
  that option, and \<^verbatim>\<open>launchExe\<close> passes no extra argument for an empty
  \<open>launch_args\<close>.
\<close>

theorem parseArgs_splits_on_spaces:
  "(even (length (filter (\<lambda>c. c = dquote) u)) \<longrightarrow>
      parseArgs (u @ space # v) = parseArgs u @ parseArgs v)
   \<and> ((\<forall>k<length p. p ! k = space \<longrightarrow>
         odd (length (filter (\<lambda>c. c = dquote) (take k p)))) \<longrightarrow>
      parseArgs p =
        (if filter (\<lambda>c. c \<noteq> dquote) p = [] then [] else [filter (\<lambda>c. c \<noteq> dquote) p]))
   \<and> (even (length (filter (\<lambda>c. c = dquote) u)) \<and> dquote \<notin> set q \<longrightarrow>
      parseArgs (u @ [space, dquote] @ q @ [dquote, space] @ v) =
        parseArgs u @ (if q = [] then [] else [q]) @ parseArgs v)
   \<and> (dquote \<notin> set q \<longrightarrow>
      parseArgs (dquote # q @ [dquote]) = (if q = [] then [] else [q]) \<and>
      parseArgs (dquote # q) = (if q = [] then [] else [q]))
   \<and> (dquote \<notin> set w \<and> space \<notin> set w \<and> w \<noteq> [] \<longrightarrow> parseArgs w = [w])
   \<and> (\<forall>a\<in>set (parseArgs s). a \<noteq> [] \<and> dquote \<notin> set a)
   \<and> parseArgs (''--a '' @ [dquote] @ ''b c'' @ [dquote] @ '' --d'') = [''--a'', ''b c'', ''--d'']
   \<and> parseArgs '''' = []
   \<and> parseArgs ''--x'' = [''--x'']
   \<and> parseArgs (''--path='' @ [dquote] @ ''C:/Program Files/x'' @ [dquote]) =
       [''--path=C:/Program Files/x'']
   \<and> launchExe os exePath '''' = execute os ''cmd'' [''/c'', ''start'', '''', exePath]"
proof -
  have clean: "\<forall>a\<in>set (parseArgs s). a \<noteq> [] \<and> dquote \<notin> set a"
    unfolding parseArgs_def by (rule parseArgs_loop_clean) simp_all
  have ex1: "parseArgs (''--a '' @ [dquote] @ ''b c'' @ [dquote] @ '' --d'') = [''--a'', ''b c'', ''--d'']"
    by (simp add: parseArgs_def dquote_def space_def)
  have ex2: "parseArgs '''' = []" by (simp add: parseArgs_def)
  have ex3: "parseArgs ''--x'' = [''--x'']" by (simp add: parseArgs_def dquote_def space_def)
  have ex4: "parseArgs (''--path='' @ [dquote] @ ''C:/Program Files/x'' @ [dquote]) =
             [''--path=C:/Program Files/x'']"
    by (simp add: parseArgs_def dquote_def space_def)
  have exe: "launchExe os exePath '''' = execute os ''cmd'' [''/c'', ''start'', '''', exePath]"
    by (simp add: launchExe_def trim_def trimStart_def trimEnd_def)
  show ?thesis
    using parseArgs_split_space [of u v] parseArgs_piece [of p] parseArgs_quoted_between [of u q v]
      parseArgs_quoted [of q] parseArgs_unmatched [of q] parseArgs_word [of w]
      clean ex1 ex2 ex3 ex4 exe
    by blast
qed

text \<open>The amended claim C5 at concrete strings.\<close>

theorem parseArgs_splits_on_spaces_witness:
  "parseArgs (''--a'' @ space # ''--d'') = [''--a'', ''--d'']
   \<and> parseArgs (''a='' @ [dquote] @ ''b c'' @ [dquote] @ ''d'') = [''a=b cd'']
   \<and> parseArgs (''--a'' @ [space, dquote] @ ''b c'' @ [dquote, space] @ ''--d'') = [''--a'', ''b c'', ''--d'']
   \<and> parseArgs (dquote # ''b c'' @ [dquote]) = [''b c'']
   \<and> parseArgs (dquote # ''b c'') = [''b c'']
   \<and> parseArgs ''--x'' = [''--x'']
   \<and> list_all (\<lambda>a. a \<noteq> [] \<and> dquote \<notin> set a) (parseArgs (dquote # ''b c''))
   \<and> launchExe (\<lambda>p a. None) ''C:/g/app.exe'' '''' =
       execute (\<lambda>p a. None) ''cmd'' [''/c'', ''start'', '''', ''C:/g/app.exe'']"
  using parseArgs_splits_on_spaces [of "''--a''" "''--d''"
      "''a='' @ [dquote] @ ''b c'' @ [dquote] @ ''d''" "''b c''" "''--x''" "dquote # ''b c''"
      "\<lambda>p a. None" "''C:/g/app.exe''"]
  by (simp add: parseArgs_def dquote_def space_def)


subsection \<open>launchEntry\<close>

lemma launchEntry_steam:
  "launch_type entry = ''steam'' \<Longrightarrow>
   launchEntry os entry =
     (let a = [''/c'', ''start'', ''steam://rungameid/'' @ launch_data entry]
      in case os ''cmd'' a of
        None \<Rightarrow> (Inr True, [PlaySound ''launch'', Execute ''cmd'' a,
                   SetTimeout (ToggleWindow True) 200])
      | Some e \<Rightarrow> (Inr False, [PlaySound ''launch'', Execute ''cmd'' a,
                   ConsoleError [''Failed to launch:'', message e]]))"
  by (simp add: io_defs split: option.splits)

lemma launchEntry_exe:
  "launch_type entry = ''exe'' \<Longrightarrow>
   launchEntry os entry =
     (let a = [''/c'', ''start'', '''', launch_data entry] @
               (if trim (launch_args entry) \<noteq> [] then parseArgs (launch_args entry) else [])
      in case os ''cmd'' a of
        None \<Rightarrow> (Inr True, [PlaySound ''launch'', Execute ''cmd'' a,
                   SetTimeout (ToggleWindow True) 200])
      | Some e \<Rightarrow> (Inr False, [PlaySound ''launch'', Execute ''cmd'' a,
                   ConsoleError [''Failed to launch:'', message e]]))"
  by (simp add: io_defs Let_def split: option.splits)

lemma launchEntry_url:
  "launch_type entry = ''url'' \<Longrightarrow>
   launchEntry os entry =
     (let a = [''/c'', ''start'', launch_data entry]
      in case os ''cmd'' a of
        None \<Rightarrow> (Inr True, [PlaySound ''launch'', Execute ''cmd'' a,
                   SetTimeout (ToggleWindow True) 200])
      | Some e \<Rightarrow> (Inr False, [PlaySound ''launch'', Execute ''cmd'' a,
                   ConsoleError [''Failed to launch:'', message e]]))"
  by (simp add: io_defs split: option.splits)

lemma launchEntry_bat:
  "launch_type entry = ''bat'' \<Longrightarrow>
   launchEntry os entry =
     (let a = [''/c'', launch_data entry]
      in case os ''cmd'' a of
        None \<Rightarrow> (Inr True, [PlaySound ''launch'', Execute ''cmd'' a,
                   SetTimeout (ToggleWindow True) 200])
      | Some e \<Rightarrow> (Inr False, [PlaySound ''launch'', Execute ''cmd'' a,
                   ConsoleError [''Failed to launch:'', message e]]))"
  by (simp add: io_defs split: option.splits)

lemma launchEntry_unknown:
  "launch_type entry \<notin> set [''steam'', ''exe'', ''url'', ''bat''] \<Longrightarrow>
   launchEntry os entry =
     (Inr False, [PlaySound ''launch'', ConsoleError [''Unknown launch type:'', launch_type entry]])"
  by (simp add: io_defs)

lemma launch_type_cases:
  obtains "launch_type entry = ''steam''" | "launch_type entry = ''exe''"
    | "launch_type entry = ''url''" | "launch_type entry = ''bat''"
    | "launch_type entry \<notin> set [''steam'', ''exe'', ''url'', ''bat'']"
  by auto

text \<open>
  Claim C6. For an entry whose \<open>launch_type\<close> is \<open>steam\<close>, \<open>exe\<close>, \<open>url\<close> or
  \<open>bat\<close>, a call of \<^verbatim>\<open>launchEntry\<close> issues exactly one shell command, the one of
  the strategy that \<open>launch_type\<close> selects; no call issues more than one. For
  \<open>steam\<close> the command opens \<^verbatim>\<open>steam://rungameid/<launch_data>\<close> with
  \<open>launch_data\<close> inserted as it is, and the whole call is the same whatever
  \<open>launch_args\<close> holds.
\<close>

theorem launchEntry_one_strategy:
  "(launch_type entry = ''steam'' \<longrightarrow>
      executions (launchEntry os entry) =
        [Execute ''cmd'' [''/c'', ''start'', ''steam://rungameid/'' @ launch_data entry]] \<and>
      launchEntry os (entry\<lparr>launch_args := args\<rparr>) = launchEntry os entry)
   \<and> (launch_type entry = ''exe'' \<longrightarrow>
      executions (launchEntry os entry) =
        [Execute ''cmd'' ([''/c'', ''start'', '''', launch_data entry] @
           (if trim (launch_args entry) \<noteq> [] then parseArgs (launch_args entry) else []))])
   \<and> (launch_type entry = ''url'' \<longrightarrow>
      executions (launchEntry os entry) =
        [Execute ''cmd'' [''/c'', ''start'', launch_data entry]])
   \<and> (launch_type entry = ''bat'' \<longrightarrow>
      executions (launchEntry os entry) = [Execute ''cmd'' [''/c'', launch_data entry]])
   \<and> length (executions (launchEntry os entry)) \<le> 1"
proof -
  have steam: "launchEntry os (entry\<lparr>launch_args := args\<rparr>) = launchEntry os entry"
    if "launch_type entry = ''steam''"
    using that launchEntry_steam [of "entry\<lparr>launch_args := args\<rparr>" os]
      launchEntry_steam [of entry os] by simp
  show ?thesis
  proof (cases entry rule: launch_type_cases)
    case 1
    then show ?thesis using steam launchEntry_steam [of entry os]
      by (simp add: executions_def Let_def split: option.splits)
  next
    case 2
    then show ?thesis using launchEntry_exe [of entry os]
      by (simp add: executions_def Let_def split: option.splits)
  next
    case 3
    then show ?thesis using launchEntry_url [of entry os]
      by (simp add: executions_def Let_def split: option.splits)
  next
    case 4
    then show ?thesis using launchEntry_bat [of entry os]
      by (simp add: executions_def Let_def split: option.splits)
  next
    case 5
    then show ?thesis using launchEntry_unknown [of entry os]
      by (simp add: executions_def)
  qed
qed

text \<open>
  Claim C6 at five entries: one for each launch type (the first is the Steam scenario of
  the specification, the second its executable scenario) and an executable whose
  \<open>launch_args\<close> is a no-break space and a tab, which \<^verbatim>\<open>trim\<close> empties.
\<close>

theorem launchEntry_one_strategy_witness:
  "executions (launchEntry (\<lambda>p a. None)
      \<lparr>id = 1, type = ''game'', name = ''Disgaea'', image_data = ''data:image/png;base64,AA'',
       deprecated = False, created_at = Some 1700000000,
       launch_type = ''steam'', launch_data = ''814380'', launch_args = ''--windowed''\<rparr>) =
     [Execute ''cmd'' [''/c'', ''start'', ''steam://rungameid/814380'']]
   \<and> launchEntry (\<lambda>p a. None)
      \<lparr>id = 1, type = ''game'', name = ''Disgaea'', image_data = ''data:image/png;base64,AA'',
       deprecated = False, created_at = Some 1700000000,
       launch_type = ''steam'', launch_data = ''814380'', launch_args = ''''\<rparr> =
     launchEntry (\<lambda>p a. None)
      \<lparr>id = 1, type = ''game'', name = ''Disgaea'', image_data = ''data:image/png;base64,AA'',
       deprecated = False, created_at = Some 1700000000,
       launch_type = ''steam'', launch_data = ''814380'', launch_args = ''--windowed''\<rparr>
   \<and> executions (launchEntry (\<lambda>p a. None)
      \<lparr>id = 2, type = ''app'', name = ''App'', image_data = ''data:image/png;base64,AA'',
       deprecated = False, created_at = Some 1700000000,
       launch_type = ''exe'', launch_data = ''C:/g/app.exe'',
       launch_args = ''--flag '' @ [dquote] @ ''a b'' @ [dquote]\<rparr>) =
     [Execute ''cmd'' [''/c'', ''start'', '''', ''C:/g/app.exe'', ''--flag'', ''a b'']]
   \<and> executions (launchEntry (\<lambda>p a. None)
      \<lparr>id = 3, type = ''app'', name = ''Docs'', image_data = ''data:image/png;base64,AA'',
       deprecated = False, created_at = Some 1700000000,
       launch_type = ''url'', launch_data = ''https://example.org'', launch_args = ''''\<rparr>) =
     [Execute ''cmd'' [''/c'', ''start'', ''https://example.org'']]
   \<and> executions (launchEntry (\<lambda>p a. None)
      \<lparr>id = 4, type = ''game'', name = ''Sekiro'', image_data = ''data:image/png;base64,AA'',
       deprecated = False, created_at = Some 1700000000,
       launch_type = ''bat'', launch_data = ''C:/Games/sekiro.bat'', launch_args = ''''\<rparr>) =
     [Execute ''cmd'' [''/c'', ''C:/Games/sekiro.bat'']]
   \<and> executions (launchEntry (\<lambda>p a. None)
      \<lparr>id = 5, type = ''app'', name = ''App'', image_data = ''data:image/png;base64,AA'',
       deprecated = False, created_at = Some 1700000000,
       launch_type = ''exe'', launch_data = ''C:/g/app.exe'',
       launch_args = [CHR 0xC2, CHR 0xA0, CHR 0x09]\<rparr>) =
     [Execute ''cmd'' [''/c'', ''start'', '''', ''C:/g/app.exe'']]"
  using
    launchEntry_one_strategy [of
      "\<lparr>id = 1, type = ''game'', name = ''Disgaea'', image_data = ''data:image/png;base64,AA'',
        deprecated = False, created_at = Some 1700000000,
        launch_type = ''steam'', launch_data = ''814380'', launch_args = ''--windowed''\<rparr>"
      "\<lambda>p a. None" "''''"]
    launchEntry_one_strategy [of
      "\<lparr>id = 2, type = ''app'', name = ''App'', image_data = ''data:image/png;base64,AA'',
        deprecated = False, created_at = Some 1700000000,
        launch_type = ''exe'', launch_data = ''C:/g/app.exe'',
        launch_args = ''--flag '' @ [dquote] @ ''a b'' @ [dquote]\<rparr>"
      "\<lambda>p a. None" "''''"]
    launchEntry_one_strategy [of
      "\<lparr>id = 3, type = ''app'', name = ''Docs'', image_data = ''data:image/png;base64,AA'',
        deprecated = False, created_at = Some 1700000000,
        launch_type = ''url'', launch_data = ''https://example.org'', launch_args = ''''\<rparr>"
      "\<lambda>p a. None" "''''"]
    launchEntry_one_strategy [of
      "\<lparr>id = 4, type = ''game'', name = ''Sekiro'', image_data = ''data:image/png;base64,AA'',
        deprecated = False, created_at = Some 1700000000,
        launch_type = ''bat'', launch_data = ''C:/Games/sekiro.bat'', launch_args = ''''\<rparr>"
      "\<lambda>p a. None" "''''"]
    launchEntry_one_strategy [of
      "\<lparr>id = 5, type = ''app'', name = ''App'', image_data = ''data:image/png;base64,AA'',
        deprecated = False, created_at = Some 1700000000,
        launch_type = ''exe'', launch_data = ''C:/g/app.exe'',
        launch_args = [CHR 0xC2, CHR 0xA0, CHR 0x09]\<rparr>"
      "\<lambda>p a. None" "''''"]
  by (simp add: trim_def trimStart_def trimEnd_def white_space_def parseArgs_def dquote_def
      space_def)

text \<open>
  Claim C7. \<^verbatim>\<open>launchEntry\<close> always returns a boolean and never an error. When the
  shell rejects the command of the call, the error is caught and logged and the result
  is \<^verbatim>\<open>false\<close>; when the launch type is one of the four and the shell accepts the
  command, the result is \<^verbatim>\<open>true\<close>.
\<close>

theorem launchEntry_never_throws:
  "(\<exists>b. fst (launchEntry os entry) = Inr b)
   \<and> (Execute p a \<in> set (snd (launchEntry os entry)) \<and> os p a = Some e \<longrightarrow>
        launchEntry os entry =
          (Inr False, [PlaySound ''launch'', Execute p a,
                       ConsoleError [''Failed to launch:'', message e]]))
   \<and> (launch_type entry \<in> set [''steam'', ''exe'', ''url'', ''bat''] \<and>
      (\<forall>p a. Execute p a \<in> set (snd (launchEntry os entry)) \<longrightarrow> os p a = None) \<longrightarrow>
        fst (launchEntry os entry) = Inr True)"
proof (cases entry rule: launch_type_cases)
  case 1
  then show ?thesis using launchEntry_steam [of entry os]
    by (auto simp: Let_def split: option.splits)
next
  case 2
  then show ?thesis using launchEntry_exe [of entry os]
    by (auto simp: Let_def split: option.splits)
next
  case 3
  then show ?thesis using launchEntry_url [of entry os]
    by (auto simp: Let_def split: option.splits)
next
  case 4
  then show ?thesis using launchEntry_bat [of entry os]
    by (auto simp: Let_def split: option.splits)
next
  case 5
  then show ?thesis using launchEntry_unknown [of entry os] by auto
qed

text \<open>Claim C7 at a Steam entry, with a shell that rejects and a shell that accepts.\<close>

theorem launchEntry_never_throws_witness:
  "launchEntry (\<lambda>p a. Some (ShellError ''program not allowed''))
      \<lparr>id = 1, type = ''game'', name = ''Disgaea'', image_data = ''data:image/png;base64,AA'',
       deprecated = False, created_at = Some 1700000000,
       launch_type = ''steam'', launch_data = ''814380'', launch_args = ''''\<rparr> =
     (Inr False,
      [PlaySound ''launch'', Execute ''cmd'' [''/c'', ''start'', ''steam://rungameid/814380''],
       ConsoleError [''Failed to launch:'', ''program not allowed'']])
   \<and> fst (launchEntry (\<lambda>p a. None)
      \<lparr>id = 1, type = ''game'', name = ''Disgaea'', image_data = ''data:image/png;base64,AA'',
       deprecated = False, created_at = Some 1700000000,
       launch_type = ''steam'', launch_data = ''814380'', launch_args = ''''\<rparr>) = Inr True"
  using
    launchEntry_never_throws [of "\<lambda>p a. Some (ShellError ''program not allowed'')"
      "\<lparr>id = 1, type = ''game'', name = ''Disgaea'', image_data = ''data:image/png;base64,AA'',
        deprecated = False, created_at = Some 1700000000,
        launch_type = ''steam'', launch_data = ''814380'', launch_args = ''''\<rparr>"
      "''cmd''" "[''/c'', ''start'', ''steam://rungameid/814380'']"
      "ShellError ''program not allowed''"]
    launchEntry_never_throws [of "\<lambda>p a. None"
      "\<lparr>id = 1, type = ''game'', name = ''Disgaea'', image_data = ''data:image/png;base64,AA'',
        deprecated = False, created_at = Some 1700000000,
        launch_type = ''steam'', launch_data = ''814380'', launch_args = ''''\<rparr>"]
  by (simp add: io_defs)

text \<open>
  Claim C10. For an entry whose \<open>launch_type\<close> is none of the four values,
  \<^verbatim>\<open>launchEntry\<close> issues no shell command, schedules no window hide and returns
  \<^verbatim>\<open>false\<close>: it plays the sound and logs the unknown type, nothing else.
\<close>

theorem launchEntry_unknown_launch_type:
  assumes "launch_type entry \<notin> set [''steam'', ''exe'', ''url'', ''bat'']"
  shows "fst (launchEntry os entry) = Inr False
         \<and> executions (launchEntry os entry) = []
         \<and> (\<forall>c n. SetTimeout c n \<notin> set (snd (launchEntry os entry)))
         \<and> snd (launchEntry os entry) =
             [PlaySound ''launch'', ConsoleError [''Unknown launch type:'', launch_type entry]]"
  using launchEntry_unknown [OF assms, of os] by (simp add: executions_def)

text \<open>Claim C10 at an entry of launch type \<open>epic\<close>.\<close>

theorem launchEntry_unknown_launch_type_witness:
  "launchEntry (\<lambda>p a. None)
      \<lparr>id = 1, type = ''game'', name = ''Disgaea'', image_data = ''data:image/png;base64,AA'',
       deprecated = False, created_at = Some 1700000000,
       launch_type = ''epic'', launch_data = ''814380'', launch_args = ''''\<rparr> =
     (Inr False, [PlaySound ''launch'', ConsoleError [''Unknown launch type:'', ''epic'']])"
  using launchEntry_unknown_launch_type [of
      "\<lparr>id = 1, type = ''game'', name = ''Disgaea'', image_data = ''data:image/png;base64,AA'',
        deprecated = False, created_at = Some 1700000000,
        launch_type = ''epic'', launch_data = ''814380'', launch_args = ''''\<rparr>"
      "\<lambda>p a. None"]
  by (simp add: prod_eq_iff)

section \<open>Properties of db.ts\<close>

lemmas db_defs = then_db_def return_db_def throw_db_def db_execute_def db_select_def
  require_db_def database_load_def

lemma set_insert_desc: "set (insert_desc r xs) = insert r (set xs)"
  by (induction xs) auto



lemma created_ge_total: "created_ge a b \<or> created_ge b a"
  by (cases a; cases b) auto

lemma created_ge_trans: "created_ge a b \<Longrightarrow> created_ge b c \<Longrightarrow> created_ge a c"
  by (cases a; cases b; cases c) auto

lemma sorted_insert_desc:
  "sorted_wrt (\<lambda>x y. created_ge (created_at x) (created_at y)) xs \<Longrightarrow>
   sorted_wrt (\<lambda>x y. created_ge (created_at x) (created_at y)) (insert_desc r xs)"
proof (induction xs)
  case Nil
  show ?case by simp
next
  case (Cons x xs)
  show ?case
  proof (cases "created_ge (created_at x) (created_at r)")
    case True
    then show ?thesis using Cons by (auto simp: set_insert_desc)
  next
    case False
    then have rx: "created_ge (created_at r) (created_at x)"
      using created_ge_total [of "created_at x" "created_at r"] by simp
    have "\<forall>y\<in>set xs. created_ge (created_at r) (created_at y)"
      using Cons.prems rx created_ge_trans by auto
    then show ?thesis using False rx Cons.prems by simp
  qed
qed

lemma sorted_fold_insert_desc:
  "sorted_wrt (\<lambda>x y. created_ge (created_at x) (created_at y)) acc \<Longrightarrow>
   sorted_wrt (\<lambda>x y. created_ge (created_at x) (created_at y)) (fold insert_desc xs acc)"
  by (induction xs arbitrary: acc) (simp_all add: sorted_insert_desc)

lemma sorted_order_by_created_at_desc:
  "sorted_wrt (\<lambda>x y. created_ge (created_at x) (created_at y)) (order_by_created_at_desc rows)"
  by (simp add: order_by_created_at_desc_def sorted_fold_insert_desc)





lemma insert_rows_append:
  "insert_rows rs (q, rows) = Inr (q', rows') \<Longrightarrow> rows' = rows @ rs"
proof (induction rs arbitrary: q rows)
  case Nil
  then show ?case by simp
next
  case (Cons r rs)
  from Cons.prems obtain q1 where
    step: "insert_row r (q, rows) = Inr (q1, rows @ [r])"
    and rest: "insert_rows rs (q1, rows @ [r]) = Inr (q', rows')"
    by (auto simp: insert_row_def split: if_splits sum.splits)
  from Cons.IH [OF rest] show ?case by simp
qed

lemma insert_rows_ok_iff:
  "(\<exists>t. insert_rows rs (q, rows) = Inr t) \<longleftrightarrow>
   (\<forall>r\<in>set rs. check_type (type r) \<and> check_launch_type (launch_type r)) \<and>
   distinct (map id rs) \<and> set (map id rs) \<inter> set (map id rows) = {}"
proof (induction rs arbitrary: q rows)
  case Nil
  show ?case by simp
next
  case (Cons r rs)
  show ?case
  proof (cases "insert_row r (q, rows)")
    case (Inl e)
    then show ?thesis by (auto simp: insert_row_def split: if_splits)
  next
    case (Inr t)
    then have ok: "check_type (type r)" "check_launch_type (launch_type r)"
      "id r \<notin> set (map id rows)" and t: "t = (max q (id r), rows @ [r])"
      by (auto simp: insert_row_def split: if_splits)
    show ?thesis using Inr ok Cons.IH [of "max q (id r)" "rows @ [r]"]
      by (auto simp: t)
  qed
qed

lemma hasOldSchema_legacy:
  "''bat_path'' \<in> set legacy_columns \<and> ''launch_type'' \<notin> set legacy_columns"
  by (simp add: legacy_columns_def)

lemma hasOldSchema_current:
  "\<not> (''bat_path'' \<in> set current_columns \<and> ''launch_type'' \<notin> set current_columns)"
  by (simp add: current_columns_def)

lemmas init_defs = initDatabase_def db_defs table_info_def legacy_columns_def
  current_columns_def alter_table_rename_def create_table_entries_def
  insert_select_old_def drop_table_def

lemma initDatabase_sets_db: "db (snd (initDatabase s)) = Some (Handle ''sqlite:kscope.db'')"
  by (simp add: init_defs Let_def split: option.splits table.splits sum.splits prod.splits)

lemma initDatabase_legacy_clash:
  assumes "kscope_db s ''entries'' = Some (Legacy old)" and "kscope_db s ''entries_old'' = Some t"
  shows "\<exists>e. fst (initDatabase s) = Inl e"
  using assms by (simp add: init_defs)

lemma initDatabase_legacy_constraint:
  assumes "kscope_db s ''entries'' = Some (Legacy old)" and "kscope_db s ''entries_old'' = None"
    and "insert_rows (map migrate_row old) (0, []) = Inl e"
  shows "fst (initDatabase s) = Inl e"
  using assms by (simp add: init_defs)

lemma initDatabase_legacy_ok:
  assumes "kscope_db s ''entries'' = Some (Legacy old)" and "kscope_db s ''entries_old'' = None"
    and "insert_rows (map migrate_row old) (0, []) = Inr (q, rows)"
  shows "fst (initDatabase s) = Inr ()"
    and "kscope_db (snd (initDatabase s)) ''entries'' = Some (Current q rows)"
    and "kscope_db (snd (initDatabase s)) ''entries_old'' = None"
  using assms by (simp_all add: init_defs)

lemma initDatabase_fresh:
  assumes "kscope_db s ''entries'' = None"
  shows "fst (initDatabase s) = Inr ()"
    and "kscope_db (snd (initDatabase s)) ''entries'' = Some (Current 0 [])"
  using assms by (simp_all add: init_defs)

lemma initDatabase_current:
  assumes "kscope_db s ''entries'' = Some (Current q rows)"
  shows "initDatabase s = (Inr (), s\<lparr>db := Some (Handle ''sqlite:kscope.db'')\<rparr>)"
  using assms by (simp add: init_defs)

lemma initDatabase_initialized:
  assumes "fst (initDatabase s) = Inr ()"
  shows "initialized (snd (initDatabase s))"
proof (cases "kscope_db s ''entries''")
  case None
  then show ?thesis using initDatabase_fresh [OF None] initDatabase_sets_db [of s]
    by (simp add: initialized_def)
next
  case (Some t)
  show ?thesis
  proof (cases t)
    case (Current q rows)
    then show ?thesis using Some initDatabase_current [of s q rows]
      by (simp add: initialized_def)
  next
    case (Legacy old)
    note leg = Some [unfolded Legacy]
    show ?thesis
    proof (cases "kscope_db s ''entries_old''")
      case (Some t')
      then show ?thesis using initDatabase_legacy_clash [OF leg Some] assms by auto
    next
      case None
      show ?thesis
      proof (cases "insert_rows (map migrate_row old) (0, [])")
        case (Inl e)
        then show ?thesis using initDatabase_legacy_constraint [OF leg None Inl] assms by simp
      next
        case (Inr t)
        obtain q rows where "t = (q, rows)" by (cases t)
        then show ?thesis
          using initDatabase_legacy_ok(2) [OF leg None, of q rows] Inr initDatabase_sets_db [of s]
          by (simp add: initialized_def)
      qed
    qed
  qed
qed

lemma insert_rows_migrate_iff:
  "(\<exists>t. insert_rows (map migrate_row old) (0, []) = Inr t) \<longleftrightarrow>
   distinct (map id old) \<and> (\<forall>r\<in>set old. check_type (type r))"
proof -
  have ids: "map id (map migrate_row old) = map id old"
    by (simp add: migrate_row_def)
  have chk: "(\<forall>r\<in>set (map migrate_row old). check_type (type r) \<and> check_launch_type (launch_type r))
             \<longleftrightarrow> (\<forall>r\<in>set old. check_type (type r))"
    by (simp add: migrate_row_def check_launch_type_def)
  show ?thesis
    unfolding insert_rows_ok_iff [of "map migrate_row old" 0 "[]"] chk ids by auto
qed

text \<open>
  Claim C1. Let the table \<open>entries\<close> have the legacy layout, with the rows \<open>old\<close>.
  \<^verbatim>\<open>initDatabase\<close> completes without error exactly when no table \<open>entries_old\<close> is
  in the way and the legacy rows meet the constraints of the new table (distinct keys, a
  \<open>type\<close> of \<open>game\<close> or \<open>app\<close>). Whenever it completes, \<open>entries\<close> has the
  current layout and as many rows as \<open>old\<close>; the row at each position keeps \<open>id\<close>,
  \<open>type\<close>, \<open>name\<close>, \<open>image_data\<close>, \<open>deprecated\<close> and \<open>created_at\<close>, has
  \<open>launch_type = bat\<close>, the legacy \<open>bat_path\<close> as \<open>launch_data\<close> and an empty
  \<open>launch_args\<close>; and no table \<open>entries_old\<close> is left.
\<close>

theorem migration_of_legacy_table:
  assumes "kscope_db s ''entries'' = Some (Legacy old)"
  shows "(fst (initDatabase s) = Inr () \<longleftrightarrow>
            kscope_db s ''entries_old'' = None \<and> distinct (map id old) \<and>
            (\<forall>r\<in>set old. check_type (type r)))
         \<and> (fst (initDatabase s) = Inr () \<longrightarrow>
            (\<exists>q rows.
               kscope_db (snd (initDatabase s)) ''entries'' = Some (Current q rows) \<and>
               length rows = length old \<and>
               (\<forall>k<length old.
                  id (rows ! k) = id (old ! k) \<and>
                  type (rows ! k) = type (old ! k) \<and>
                  name (rows ! k) = name (old ! k) \<and>
                  image_data (rows ! k) = image_data (old ! k) \<and>
                  deprecated (rows ! k) = deprecated (old ! k) \<and>
                  created_at (rows ! k) = created_at (old ! k) \<and>
                  launch_type (rows ! k) = ''bat'' \<and>
                  launch_data (rows ! k) = bat_path (old ! k) \<and>
                  launch_args (rows ! k) = '''')) \<and>
            kscope_db (snd (initDatabase s)) ''entries_old'' = None)"
proof (cases "kscope_db s ''entries_old''")
  case (Some t)
  then show ?thesis using initDatabase_legacy_clash [OF assms Some] by auto
next
  case None
  show ?thesis
  proof (cases "insert_rows (map migrate_row old) (0, [])")
    case (Inl e)
    have "\<not> (distinct (map id old) \<and> (\<forall>r\<in>set old. check_type (type r)))"
      using insert_rows_migrate_iff [of old] Inl by simp
    then show ?thesis using initDatabase_legacy_constraint [OF assms None Inl] by auto
  next
    case (Inr t)
    obtain q rows where t: "t = (q, rows)" by (cases t)
    have ins: "insert_rows (map migrate_row old) (0, []) = Inr (q, rows)"
      using Inr t by simp
    have rows: "rows = map migrate_row old"
      using insert_rows_append [OF ins] by simp
    have cond: "distinct (map id old) \<and> (\<forall>r\<in>set old. check_type (type r))"
      using insert_rows_migrate_iff [of old] ins by auto
    have fields: "\<forall>k<length old.
        id (rows ! k) = id (old ! k) \<and> type (rows ! k) = type (old ! k) \<and>
        name (rows ! k) = name (old ! k) \<and> image_data (rows ! k) = image_data (old ! k) \<and>
        deprecated (rows ! k) = deprecated (old ! k) \<and>
        created_at (rows ! k) = created_at (old ! k) \<and>
        launch_type (rows ! k) = ''bat'' \<and> launch_data (rows ! k) = bat_path (old ! k) \<and>
        launch_args (rows ! k) = ''''"
      by (simp add: rows migrate_row_def)
    have len: "length rows = length old" by (simp add: rows)
    show ?thesis
      using initDatabase_legacy_ok [OF assms None ins] cond None fields len by simp
  qed
qed

text \<open>Claim C1 at a legacy table of two rows.\<close>

theorem migration_of_legacy_table_witness:
  "fst (initDatabase
     \<lparr>db = None,
      kscope_db = [''entries'' \<mapsto> Legacy
        [\<lparr>id = 1, type = ''game'', name = ''Sekiro'', image_data = ''data:image/png;base64,AA'',
          deprecated = Some 0, created_at = Some 1700000000,
          bat_path = ''C:/Games/sekiro.bat''\<rparr>,
         \<lparr>id = 4, type = ''app'', name = ''Notes'', image_data = ''data:image/png;base64,BB'',
          deprecated = Some 1, created_at = Some 1700000500,
          bat_path = ''C:/Apps/notes.bat''\<rparr>]],
      clock = 1700001000\<rparr>) = Inr ()
   \<and> kscope_db (snd (initDatabase
     \<lparr>db = None,
      kscope_db = [''entries'' \<mapsto> Legacy
        [\<lparr>id = 1, type = ''game'', name = ''Sekiro'', image_data = ''data:image/png;base64,AA'',
          deprecated = Some 0, created_at = Some 1700000000,
          bat_path = ''C:/Games/sekiro.bat''\<rparr>,
         \<lparr>id = 4, type = ''app'', name = ''Notes'', image_data = ''data:image/png;base64,BB'',
          deprecated = Some 1, created_at = Some 1700000500,
          bat_path = ''C:/Apps/notes.bat''\<rparr>]],
      clock = 1700001000\<rparr>)) ''entries'' =
     Some (Current 4
        [\<lparr>id = 1, type = ''game'', name = ''Sekiro'', image_data = ''data:image/png;base64,AA'',
          deprecated = Some 0, created_at = Some 1700000000,
          launch_type = ''bat'', launch_data = ''C:/Games/sekiro.bat'', launch_args = ''''\<rparr>,
         \<lparr>id = 4, type = ''app'', name = ''Notes'', image_data = ''data:image/png;base64,BB'',
          deprecated = Some 1, created_at = Some 1700000500,
          launch_type = ''bat'', launch_data = ''C:/Apps/notes.bat'', launch_args = ''''\<rparr>])
   \<and> kscope_db (snd (initDatabase
     \<lparr>db = None,
      kscope_db = [''entries'' \<mapsto> Legacy
        [\<lparr>id = 1, type = ''game'', name = ''Sekiro'', image_data = ''data:image/png;base64,AA'',
          deprecated = Some 0, created_at = Some 1700000000,
          bat_path = ''C:/Games/sekiro.bat''\<rparr>,
         \<lparr>id = 4, type = ''app'', name = ''Notes'', image_data = ''data:image/png;base64,BB'',
          deprecated = Some 1, created_at = Some 1700000500,
          bat_path = ''C:/Apps/notes.bat''\<rparr>]],
      clock = 1700001000\<rparr>)) ''entries_old'' = None"
  using migration_of_legacy_table [of
     "\<lparr>db = None,
      kscope_db = [''entries'' \<mapsto> Legacy
        [\<lparr>id = 1, type = ''game'', name = ''Sekiro'', image_data = ''data:image/png;base64,AA'',
          deprecated = Some 0, created_at = Some 1700000000,
          bat_path = ''C:/Games/sekiro.bat''\<rparr>,
         \<lparr>id = 4, type = ''app'', name = ''Notes'', image_data = ''data:image/png;base64,BB'',
          deprecated = Some 1, created_at = Some 1700000500,
          bat_path = ''C:/Apps/notes.bat''\<rparr>]],
      clock = 1700001000\<rparr>"
     "[\<lparr>id = 1, type = ''game'', name = ''Sekiro'', image_data = ''data:image/png;base64,AA'',
          deprecated = Some 0, created_at = Some 1700000000,
          bat_path = ''C:/Games/sekiro.bat''\<rparr>,
         \<lparr>id = 4, type = ''app'', name = ''Notes'', image_data = ''data:image/png;base64,BB'',
          deprecated = Some 1, created_at = Some 1700000500,
          bat_path = ''C:/Apps/notes.bat''\<rparr>]"]
  by (simp add: init_defs check_type_def check_launch_type_def insert_row_def migrate_row_def)

lemma initialized_cases:
  assumes "initialized s"
  obtains h q rows where "db s = Some h" and "kscope_db s ''entries'' = Some (Current q rows)"
  using assms by (auto simp: initialized_def split: option.splits table.splits)

lemma with_Boolean_fields [simp]:
  "id (with_Boolean r) = id r" "type (with_Boolean r) = type r" "name (with_Boolean r) = name r"
  "image_data (with_Boolean r) = image_data r"
  "deprecated (with_Boolean r) = Boolean (deprecated r)"
  "created_at (with_Boolean r) = created_at r"
  by (simp_all add: with_Boolean_def)

lemma with_Boolean_entry_fields [simp]:
  fixes r :: row
  shows "launch_type (with_Boolean r) = launch_type r"
    "launch_data (with_Boolean r) = launch_data r"
    "launch_args (with_Boolean r) = launch_args r"
  by (cases r, simp add: with_Boolean_def)+

lemma getEntries_initialized:
  assumes "db s = Some h" and "kscope_db s ''entries'' = Some (Current q rows)"
  shows "getEntries t s =
    (Inr (CurrentRows (map with_Boolean
       (order_by_created_at_desc (filter (\<lambda>r. type r = t) rows)))), s)"
  using assms by (simp add: getEntries_def db_defs select_by_type_def)




text \<open>
  Claim C9, as stated, does not hold: on a store whose handle is unset and whose table
  holds no entry, \<^verbatim>\<open>getEntries\<close> raises the error \<open>NotInitialized\<close>.
\<close>

theorem getEntries_uninitialized_empty_store:
  "getEntries ''game''
     \<lparr>db = None, kscope_db = [''entries'' \<mapsto> Current 0 []], clock = 1700001000\<rparr> =
   (Inl NotInitialized,
     \<lparr>db = None, kscope_db = [''entries'' \<mapsto> Current 0 []], clock = 1700001000\<rparr>)"
  by (simp add: getEntries_def then_db_def require_db_def)

text \<open>
  Claim C9, amended. On an initialized store with no entry of the category,
  \<^verbatim>\<open>getEntries\<close> returns the empty collection. While the handle is unset, which is the
  state of the module until \<^verbatim>\<open>initDatabase\<close> runs its first statement, it fails with
  \<open>NotInitialized\<close>, whether or not the store holds entries.
\<close>

theorem getEntries_empty:
  "(initialized s \<and> (\<forall>r\<in>set (entries_rows s). type r \<noteq> t) \<longrightarrow>
      getEntries t s = (Inr (CurrentRows []), s))
   \<and> (db s = None \<longrightarrow> getEntries t s = (Inl NotInitialized, s))"
proof -
  have a: "getEntries t s = (Inr (CurrentRows []), s)"
    if "initialized s" and none: "\<forall>r\<in>set (entries_rows s). type r \<noteq> t"
  proof -
    from \<open>initialized s\<close> obtain h q rows where
      h: "db s = Some h" and e: "kscope_db s ''entries'' = Some (Current q rows)"
      by (rule initialized_cases)
    have "filter (\<lambda>r. type r = t) rows = []"
      using none e by (auto simp: entries_rows_def filter_empty_conv)
    then show ?thesis
      using getEntries_initialized [OF h e, of t] by (simp add: order_by_created_at_desc_def)
  qed
  have b: "getEntries t s = (Inl NotInitialized, s)" if "db s = None"
    using that by (simp add: getEntries_def then_db_def require_db_def)
  show ?thesis using a b by blast
qed

text \<open>
  The amended claim C9 at an initialized store without apps and at an uninitialized store.
\<close>

theorem getEntries_empty_witness:
  "getEntries ''app''
     \<lparr>db = Some (Handle ''sqlite:kscope.db''),
      kscope_db = [''entries'' \<mapsto> Current 1
        [\<lparr>id = 1, type = ''game'', name = ''Sekiro'', image_data = ''data:image/png;base64,AA'',
          deprecated = Some 0, created_at = Some 1700000000,
          launch_type = ''bat'', launch_data = ''C:/Games/sekiro.bat'', launch_args = ''''\<rparr>]],
      clock = 1700001000\<rparr> =
   (Inr (CurrentRows []),
     \<lparr>db = Some (Handle ''sqlite:kscope.db''),
      kscope_db = [''entries'' \<mapsto> Current 1
        [\<lparr>id = 1, type = ''game'', name = ''Sekiro'', image_data = ''data:image/png;base64,AA'',
          deprecated = Some 0, created_at = Some 1700000000,
          launch_type = ''bat'', launch_data = ''C:/Games/sekiro.bat'', launch_args = ''''\<rparr>]],
      clock = 1700001000\<rparr>)
   \<and> getEntries ''app'' \<lparr>db = None, kscope_db = Map.empty, clock = 1700001000\<rparr> =
     (Inl NotInitialized, \<lparr>db = None, kscope_db = Map.empty, clock = 1700001000\<rparr>)"
  using
    getEntries_empty [of
     "\<lparr>db = Some (Handle ''sqlite:kscope.db''),
      kscope_db = [''entries'' \<mapsto> Current 1
        [\<lparr>id = 1, type = ''game'', name = ''Sekiro'', image_data = ''data:image/png;base64,AA'',
          deprecated = Some 0, created_at = Some 1700000000,
          launch_type = ''bat'', launch_data = ''C:/Games/sekiro.bat'', launch_args = ''''\<rparr>]],
      clock = 1700001000\<rparr>" "''app''"]
    getEntries_empty [of "\<lparr>db = None, kscope_db = Map.empty, clock = 1700001000\<rparr>" "''app''"]
  by (simp add: initialized_def entries_rows_def)





lemma update_row_fields:
  "id (update_row i n lt ld la img r) = id r"
  "type (update_row i n lt ld la img r) = type r"
  "created_at (update_row i n lt ld la img r) = created_at r"
  "deprecated (update_row i n lt ld la img r) = deprecated r"
  "id r = i \<Longrightarrow> name (update_row i n lt ld la img r) = n"
  "id r = i \<Longrightarrow> launch_type (update_row i n lt ld la img r) = lt"
  "id r = i \<Longrightarrow> launch_data (update_row i n lt ld la img r) = ld"
  "id r = i \<Longrightarrow> launch_args (update_row i n lt ld la img r) = la"
  "id r = i \<Longrightarrow> image_data (update_row i n lt ld la img r) = img"
  "id r \<noteq> i \<Longrightarrow> update_row i n lt ld la img r = r"
  by (simp_all add: update_row_def)

lemma map_update_row_absent:
  "i \<notin> set (map id rows) \<Longrightarrow> map (update_row i n lt ld la img) rows = rows"
  by (induction rows) (auto simp: update_row_def)

lemma store_same_table:
  "kscope_db s t = Some tab \<Longrightarrow> s\<lparr>kscope_db := (kscope_db s)(t \<mapsto> tab)\<rparr> = s"
proof -
  assume "kscope_db s t = Some tab"
  then have "(kscope_db s)(t \<mapsto> tab) = kscope_db s" by (rule map_upd_triv)
  then show ?thesis by simp
qed

lemma updateEntry_initialized:
  assumes h: "db s = Some h" and e: "kscope_db s ''entries'' = Some (Current q rows)"
    and ok: "i \<notin> set (map id rows) \<or> check_launch_type lt"
  shows "updateEntry i n lt ld la img s =
    (Inr (), s\<lparr>kscope_db := (kscope_db s)(''entries'' \<mapsto>
               Current q (map (update_row i n lt ld la img) rows))\<rparr>)"
  using h e ok by (auto simp: updateEntry_def db_defs update_by_id_def)

text \<open>
  Claim C3. On an initialized store, \<^verbatim>\<open>updateEntry\<close> with a key that no row has
  returns without error and leaves the store as it was. With a launch type that the
  \<^verbatim>\<open>CHECK\<close> constraint admits it succeeds, keeps the number and the order of the rows,
  keeps \<open>id\<close>, \<open>type\<close>, \<open>created_at\<close> and \<open>deprecated\<close> of every row, sets the
  five fields \<open>name\<close>, \<open>launch_type\<close>, \<open>launch_data\<close>, \<open>launch_args\<close> and
  \<open>image_data\<close> of the rows with the key, and leaves every other row as it was.
\<close>

theorem updateEntry_frame:
  assumes "initialized s"
  shows "(i \<notin> set (map id (entries_rows s)) \<longrightarrow>
            updateEntry i n lt ld la img s = (Inr (), s))
         \<and> (check_launch_type lt \<longrightarrow>
            (\<exists>s'. updateEntry i n lt ld la img s = (Inr (), s') \<and>
               db s' = db s \<and>
               length (entries_rows s') = length (entries_rows s) \<and>
               (\<forall>k<length (entries_rows s).
                  id (entries_rows s' ! k) = id (entries_rows s ! k) \<and>
                  type (entries_rows s' ! k) = type (entries_rows s ! k) \<and>
                  created_at (entries_rows s' ! k) = created_at (entries_rows s ! k) \<and>
                  deprecated (entries_rows s' ! k) = deprecated (entries_rows s ! k) \<and>
                  (id (entries_rows s ! k) = i \<longrightarrow>
                     name (entries_rows s' ! k) = n \<and>
                     launch_type (entries_rows s' ! k) = lt \<and>
                     launch_data (entries_rows s' ! k) = ld \<and>
                     launch_args (entries_rows s' ! k) = la \<and>
                     image_data (entries_rows s' ! k) = img) \<and>
                  (id (entries_rows s ! k) \<noteq> i \<longrightarrow>
                     entries_rows s' ! k = entries_rows s ! k))))"
proof -
  from assms obtain h q rows where
    h: "db s = Some h" and e: "kscope_db s ''entries'' = Some (Current q rows)"
    by (rule initialized_cases)
  have rows: "entries_rows s = rows" using e by (simp add: entries_rows_def)
  let ?s' = "s\<lparr>kscope_db := (kscope_db s)(''entries'' \<mapsto>
               Current q (map (update_row i n lt ld la img) rows))\<rparr>"
  have rows': "entries_rows ?s' = map (update_row i n lt ld la img) rows"
    by (simp add: entries_rows_def)
  have absent: "updateEntry i n lt ld la img s = (Inr (), s)"
    if "i \<notin> set (map id rows)"
  proof -
    have "updateEntry i n lt ld la img s = (Inr (), ?s')"
      using that by (intro updateEntry_initialized [OF h e]) simp
    moreover have "?s' = s"
      using map_update_row_absent [OF that] store_same_table [OF e] by simp
    ultimately show ?thesis by simp
  qed
  have valid: "\<exists>s'. updateEntry i n lt ld la img s = (Inr (), s') \<and>
               db s' = db s \<and>
               length (entries_rows s') = length (entries_rows s) \<and>
               (\<forall>k<length (entries_rows s).
                  id (entries_rows s' ! k) = id (entries_rows s ! k) \<and>
                  type (entries_rows s' ! k) = type (entries_rows s ! k) \<and>
                  created_at (entries_rows s' ! k) = created_at (entries_rows s ! k) \<and>
                  deprecated (entries_rows s' ! k) = deprecated (entries_rows s ! k) \<and>
                  (id (entries_rows s ! k) = i \<longrightarrow>
                     name (entries_rows s' ! k) = n \<and>
                     launch_type (entries_rows s' ! k) = lt \<and>
                     launch_data (entries_rows s' ! k) = ld \<and>
                     launch_args (entries_rows s' ! k) = la \<and>
                     image_data (entries_rows s' ! k) = img) \<and>
                  (id (entries_rows s ! k) \<noteq> i \<longrightarrow>
                     entries_rows s' ! k = entries_rows s ! k))"
    if "check_launch_type lt"
  proof -
    have upd: "updateEntry i n lt ld la img s = (Inr (), ?s')"
      using that by (intro updateEntry_initialized [OF h e]) simp
    show ?thesis
      unfolding upd rows
      by (intro exI [of _ ?s'], simp only: rows') (simp add: update_row_fields)
  qed
  show ?thesis using absent valid rows by simp
qed

text \<open>Claim C3 at a store of two rows: an update of the row \<open>4\<close>, and one of a missing key.\<close>

theorem updateEntry_frame_witness:
  "updateEntry 4 ''Notepad'' ''exe'' ''C:/Apps/notepad.exe'' ''--new'' ''data:image/png;base64,DD''
     \<lparr>db = Some (Handle ''sqlite:kscope.db''),
      kscope_db = [''entries'' \<mapsto> Current 4
        [\<lparr>id = 1, type = ''game'', name = ''Sekiro'', image_data = ''data:image/png;base64,AA'',
          deprecated = Some 0, created_at = Some 1700000000,
          launch_type = ''bat'', launch_data = ''C:/Games/sekiro.bat'', launch_args = ''''\<rparr>,
         \<lparr>id = 4, type = ''app'', name = ''Notes'', image_data = ''data:image/png;base64,BB'',
          deprecated = Some 1, created_at = Some 1700000500,
          launch_type = ''bat'', launch_data = ''C:/Apps/notes.bat'', launch_args = ''''\<rparr>]],
      clock = 1700001000\<rparr> =
   (Inr (),
     \<lparr>db = Some (Handle ''sqlite:kscope.db''),
      kscope_db = [''entries'' \<mapsto> Current 4
        [\<lparr>id = 1, type = ''game'', name = ''Sekiro'', image_data = ''data:image/png;base64,AA'',
          deprecated = Some 0, created_at = Some 1700000000,
          launch_type = ''bat'', launch_data = ''C:/Games/sekiro.bat'', launch_args = ''''\<rparr>,
         \<lparr>id = 4, type = ''app'', name = ''Notepad'', image_data = ''data:image/png;base64,DD'',
          deprecated = Some 1, created_at = Some 1700000500,
          launch_type = ''exe'', launch_data = ''C:/Apps/notepad.exe'', launch_args = ''--new''\<rparr>]],
      clock = 1700001000\<rparr>)
   \<and> updateEntry 9 ''Notepad'' ''exe'' ''C:/Apps/notepad.exe'' ''--new'' ''data:image/png;base64,DD''
     \<lparr>db = Some (Handle ''sqlite:kscope.db''),
      kscope_db = [''entries'' \<mapsto> Current 4
        [\<lparr>id = 1, type = ''game'', name = ''Sekiro'', image_data = ''data:image/png;base64,AA'',
          deprecated = Some 0, created_at = Some 1700000000,
          launch_type = ''bat'', launch_data = ''C:/Games/sekiro.bat'', launch_args = ''''\<rparr>,
         \<lparr>id = 4, type = ''app'', name = ''Notes'', image_data = ''data:image/png;base64,BB'',
          deprecated = Some 1, created_at = Some 1700000500,
          launch_type = ''bat'', launch_data = ''C:/Apps/notes.bat'', launch_args = ''''\<rparr>]],
      clock = 1700001000\<rparr> =
   (Inr (),
     \<lparr>db = Some (Handle ''sqlite:kscope.db''),
      kscope_db = [''entries'' \<mapsto> Current 4
        [\<lparr>id = 1, type = ''game'', name = ''Sekiro'', image_data = ''data:image/png;base64,AA'',
          deprecated = Some 0, created_at = Some 1700000000,
          launch_type = ''bat'', launch_data = ''C:/Games/sekiro.bat'', launch_args = ''''\<rparr>,
         \<lparr>id = 4, type = ''app'', name = ''Notes'', image_data = ''data:image/png;base64,BB'',
          deprecated = Some 1, created_at = Some 1700000500,
          launch_type = ''bat'', launch_data = ''C:/Apps/notes.bat'', launch_args = ''''\<rparr>]],
      clock = 1700001000\<rparr>)"
  using
    updateEntry_frame [of
     "\<lparr>db = Some (Handle ''sqlite:kscope.db''),
      kscope_db = [''entries'' \<mapsto> Current 4
        [\<lparr>id = 1, type = ''game'', name = ''Sekiro'', image_data = ''data:image/png;base64,AA'',
          deprecated = Some 0, created_at = Some 1700000000,
          launch_type = ''bat'', launch_data = ''C:/Games/sekiro.bat'', launch_args = ''''\<rparr>,
         \<lparr>id = 4, type = ''app'', name = ''Notes'', image_data = ''data:image/png;base64,BB'',
          deprecated = Some 1, created_at = Some 1700000500,
          launch_type = ''bat'', launch_data = ''C:/Apps/notes.bat'', launch_args = ''''\<rparr>]],
      clock = 1700001000\<rparr>"
     4 "''Notepad''" "''exe''" "''C:/Apps/notepad.exe''" "''--new''" "''data:image/png;base64,DD''"]
    updateEntry_frame [of
     "\<lparr>db = Some (Handle ''sqlite:kscope.db''),
      kscope_db = [''entries'' \<mapsto> Current 4
        [\<lparr>id = 1, type = ''game'', name = ''Sekiro'', image_data = ''data:image/png;base64,AA'',
          deprecated = Some 0, created_at = Some 1700000000,
          launch_type = ''bat'', launch_data = ''C:/Games/sekiro.bat'', launch_args = ''''\<rparr>,
         \<lparr>id = 4, type = ''app'', name = ''Notes'', image_data = ''data:image/png;base64,BB'',
          deprecated = Some 1, created_at = Some 1700000500,
          launch_type = ''bat'', launch_data = ''C:/Apps/notes.bat'', launch_args = ''''\<rparr>]],
      clock = 1700001000\<rparr>"
     9 "''Notepad''" "''exe''" "''C:/Apps/notepad.exe''" "''--new''" "''data:image/png;base64,DD''"]
  by (simp add: initialized_def entries_rows_def check_launch_type_def updateEntry_def db_defs
      update_by_id_def update_row_def)




end
